theory Spec2Isabelle
  imports Main
begin

section \<open>Values, addresses and the graph\<close>

text \<open>
  The porcelain module (GitHub plugin) wraps a graph and an address in an object of one of
  seven classes and answers every question about the entity by querying the graph. The
  module is JavaScript with Flow annotations; the annotations are erased at run time, so the
  model follows what the JavaScript does: a property that an object does not have reads as
  \<open>undefined\<close>, reading a property of \<open>undefined\<close> throws, and a \<open>throw\<close> ends the
  call with an error value.
\<close>

text \<open>
  The JavaScript values that payload fields and the porcelain's return values range over.
  A number is an integer here: the only numbers the module compares are issue and
  pull-request numbers.
\<close>

datatype jsval = Undefined | Null | Str string | Num int

text \<open>A payload is a JavaScript object: its own properties, by name.\<close>

type_synonym payload = "(string \<times> jsval) list"

text \<open>\<open>payload.k\<close>: the property when the object has it, \<open>undefined\<close> otherwise.\<close>

definition getProp :: "payload \<Rightarrow> string \<Rightarrow> jsval" where
  "getProp p k = (case map_of p k of None \<Rightarrow> Undefined | Some v \<Rightarrow> v)"

text \<open>
  \<open>Address\<close> (core/address): the module reads \<open>addr.pluginName\<close>, \<open>addr.type\<close> and
  \<open>nodeAddress.id\<close>. The type tag is a string; the cast \<open>(addr.type: any)\<close> checks nothing.
\<close>

record Address =
  pluginName :: string
  type :: string
  id' :: string

record Node =
  address :: Address
  payload :: payload

record Edge =
  address :: Address
  src :: Address
  dst :: Address
  payload :: payload

text \<open>
  Modelled from the spec: the class \<open>Graph\<close> of core/graph is not among the sources. The
  spec (sections 2 and 4.1) describes it as a mapping from addresses to node payloads, a
  mapping from addresses to edges, and three queries. The model stores the nodes and the
  edges in the graph's (stable) enumeration order.
\<close>

record Graph =
  nodes :: "Node list"
  edges :: "Edge list"

text \<open>
  Modelled from the spec: the invariant of section 3, "every Address resolves to at most one
  payload of the matching storage kind", for the nodes of a graph.
\<close>

definition uniqueNodes :: "Graph \<Rightarrow> bool" where
  "uniqueNodes g = distinct (map Node.address (nodes g))"

text \<open>
  Modelled from the spec: \<open>graph.nodes({type: t})\<close>, the spec's \<open>nodesOfType\<close>: "all nodes
  whose address typeTag matches", in the graph's stable order.
\<close>

definition Graph_nodes :: "Graph \<Rightarrow> string \<Rightarrow> Node list" where
  "Graph_nodes g t = filter (\<lambda>n. type (Node.address n) = t) (nodes g)"

text \<open>
  Modelled from the spec: \<open>graph.node(address)\<close>, a point lookup: "absent is a valid,
  non-error result when the address is unknown". \<open>None\<close> is the absent result
  (\<open>undefined\<close> in JavaScript).
\<close>

definition Graph_node :: "Graph \<Rightarrow> Address \<Rightarrow> Node option" where
  "Graph_node g a = find (\<lambda>n. Node.address n = a) (nodes g)"

datatype Direction = IN | OUT | BOTH

text \<open>The options object of \<open>neighborhood\<close>; a criterion left out is \<open>None\<close>.\<close>

record NeighborhoodOptions =
  edgeType :: "string option"
  nodeType :: "string option"
  direction :: "Direction option"

text \<open>
  Modelled from the spec: which end of an edge is the neighbor of \<open>a\<close>. "\<open>OUT\<close> = address
  is src, \<open>IN\<close> = address is dst, \<open>BOTH\<close> = either"; "omitting a criterion means no filter
  on that dimension", so no direction is \<open>BOTH\<close>. The \<open>BOTH\<close> result is "the union (no
  duplicates)" of the other two, so a loop at \<open>a\<close> is listed once.
\<close>

fun incident :: "Direction option \<Rightarrow> Address \<Rightarrow> Edge \<Rightarrow> (Edge \<times> Address) list" where
  "incident (Some OUT) a e = (if src e = a then [(e, dst e)] else [])"
| "incident (Some IN) a e = (if dst e = a then [(e, src e)] else [])"
| "incident _ a e =
     (if src e = a then [(e, dst e)] else if dst e = a then [(e, src e)] else [])"

definition matchesEdgeType :: "string option \<Rightarrow> Edge \<times> Address \<Rightarrow> bool" where
  "matchesEdgeType t r = (case t of None \<Rightarrow> True | Some s \<Rightarrow> type (Edge.address (fst r)) = s)"

definition matchesNodeType :: "string option \<Rightarrow> Edge \<times> Address \<Rightarrow> bool" where
  "matchesNodeType t r = (case t of None \<Rightarrow> True | Some s \<Rightarrow> type (snd r) = s)"

text \<open>
  Modelled from the spec: \<open>graph.neighborhood(address, options)\<close> "returns all edges
  incident to address matching edgeTypeTag and direction, optionally further filtered so
  the neighbor node's typeTag matches neighborNodeTypeTag. Filtering is a conjunction of
  all supplied criteria." Each result is the pair \<open>{edge, neighbor}\<close>. An address with no
  node and no edge has the empty neighborhood. What the contract reports for an edge
  whose endpoint has no node is left to the graph's builder: the query lists the edges
  the graph holds.
\<close>

definition Graph_neighborhood ::
  "Graph \<Rightarrow> Address \<Rightarrow> NeighborhoodOptions \<Rightarrow> (Edge \<times> Address) list" where
  "Graph_neighborhood g a opts =
     filter (matchesNodeType (nodeType opts))
       (filter (matchesEdgeType (edgeType opts))
         (concat (map (incident (direction opts) a) (edges g))))"

section \<open>Constants of the plugins\<close>

text \<open>
  Modelled from the spec: the constants of ./types, ./pluginName and ../git/types are not
  among the sources. A node type constant has the literal that \<open>asEntity\<close> switches on
  (Flow's \<open>NodeType\<close> is the union of these literals); an edge type constant has its own
  name as the spec writes it (AUTHORS, CONTAINS, REFERENCES, MERGED_AS). The spec gives
  the owning plugin's name no value; only the evaluations on the example graphs unfold
  \<open>PLUGIN_NAME\<close>.
\<close>

definition PLUGIN_NAME :: string where
  "PLUGIN_NAME = ''sourcecred/github-beta''"

definition ISSUE_NODE_TYPE :: string where
  "ISSUE_NODE_TYPE = ''ISSUE''"

definition PULL_REQUEST_NODE_TYPE :: string where
  "PULL_REQUEST_NODE_TYPE = ''PULL_REQUEST''"

definition COMMENT_NODE_TYPE :: string where
  "COMMENT_NODE_TYPE = ''COMMENT''"

definition AUTHOR_NODE_TYPE :: string where
  "AUTHOR_NODE_TYPE = ''AUTHOR''"

definition PULL_REQUEST_REVIEW_NODE_TYPE :: string where
  "PULL_REQUEST_REVIEW_NODE_TYPE = ''PULL_REQUEST_REVIEW''"

definition PULL_REQUEST_REVIEW_COMMENT_NODE_TYPE :: string where
  "PULL_REQUEST_REVIEW_COMMENT_NODE_TYPE = ''PULL_REQUEST_REVIEW_COMMENT''"

definition REPOSITORY_NODE_TYPE :: string where
  "REPOSITORY_NODE_TYPE = ''REPOSITORY''"

definition COMMIT_NODE_TYPE :: string where
  "COMMIT_NODE_TYPE = ''COMMIT''"

definition AUTHORS_EDGE_TYPE :: string where
  "AUTHORS_EDGE_TYPE = ''AUTHORS''"

definition CONTAINS_EDGE_TYPE :: string where
  "CONTAINS_EDGE_TYPE = ''CONTAINS''"

definition REFERENCES_EDGE_TYPE :: string where
  "REFERENCES_EDGE_TYPE = ''REFERENCES''"

definition MERGED_AS_EDGE_TYPE :: string where
  "MERGED_AS_EDGE_TYPE = ''MERGED_AS''"

section \<open>Entities\<close>

text \<open>The seven classes of the union type \<open>Entity\<close>.\<close>

datatype EntityClass =
  Repository | Issue | PullRequest | Comment | Author
  | PullRequestReview | PullRequestReviewComment

text \<open>
  An entity is an object of one of the classes; \<open>GithubEntity\<close>'s constructor stores the
  graph and the address and does nothing else.
\<close>

record Entity =
  cls :: EntityClass
  graph :: Graph
  nodeAddress :: Address

definition new :: "EntityClass \<Rightarrow> Graph \<Rightarrow> Address \<Rightarrow> Entity" where
  "new c g a = \<lparr>cls = c, graph = g, nodeAddress = a\<rparr>"

text \<open>
  The errors of the module, one constructor for each \<open>throw\<close>, named as the spec names the
  error kinds and carrying what the message embeds:
  \<^item> \<open>WrongNamespace a\<close>: "Tried to make GitHub porcelain, but got the wrong plugin name:
    a" (\<open>asEntity\<close>);
  \<^item> \<open>UnknownEntityType a\<close>: "Tried to make GitHub porcelain, but got invalid type: a"
    (\<open>asEntity\<close>);
  \<^item> \<open>TypeMismatch a t\<close>: "Expected entity at a to have type t" (\<open>assertEntityType\<close>);
  \<^item> \<open>MultipleRepositories owner name\<close>: "Unexpectedly found multiple repositories named
    owner/name" (\<open>Porcelain.repository\<close>);
  \<^item> \<open>InvariantViolation i\<close>: "Node at i has too many MERGED_AS edges"
    (\<open>mergeCommitHash\<close>);
  \<^item> \<open>MissingPayload\<close>: the TypeError of JavaScript for \<open>this.node().payload\<close> when
    \<open>node()\<close> is \<open>undefined\<close>;
  \<^item> \<open>NotAFunction m\<close>: the TypeError of JavaScript for a call of a method \<open>m\<close> that
    the class does not have.
\<close>

datatype error =
  WrongNamespace Address
  | UnknownEntityType Address
  | TypeMismatch Address string
  | MultipleRepositories string string
  | InvariantViolation string
  | MissingPayload
  | NotAFunction string

text \<open>\<open>Array.prototype.map\<close> with a callback that may throw: the first throw ends the map.\<close>

fun mapE :: "('a \<Rightarrow> error + 'b) \<Rightarrow> 'a list \<Rightarrow> error + 'b list" where
  "mapE f [] = Inr []"
| "mapE f (x # xs) =
     (case f x of
        Inl e \<Rightarrow> Inl e
      | Inr y \<Rightarrow> (case mapE f xs of Inl e \<Rightarrow> Inl e | Inr ys \<Rightarrow> Inr (y # ys)))"

text \<open>\<open>Array.prototype.filter\<close> with a callback that may throw.\<close>

fun filterE :: "('a \<Rightarrow> error + bool) \<Rightarrow> 'a list \<Rightarrow> error + 'a list" where
  "filterE p [] = Inr []"
| "filterE p (x # xs) =
     (case p x of
        Inl e \<Rightarrow> Inl e
      | Inr b \<Rightarrow>
          (case filterE p xs of
             Inl e \<Rightarrow> Inl e
           | Inr ys \<Rightarrow> Inr (if b then x # ys else ys)))"

subsection \<open>GithubEntity\<close>

definition GithubEntity_node :: "Entity \<Rightarrow> Node option" where
  "GithubEntity_node e = Graph_node (graph e) (nodeAddress e)"

text \<open>\<open>this.node().payload.k\<close>, the body of every field accessor.\<close>

definition payloadField :: "Entity \<Rightarrow> string \<Rightarrow> error + jsval" where
  "payloadField e k =
     (case GithubEntity_node e of
        None \<Rightarrow> Inl MissingPayload
      | Some n \<Rightarrow> Inr (getProp (Node.payload n) k))"

definition GithubEntity_url :: "Entity \<Rightarrow> error + jsval" where
  "GithubEntity_url e = payloadField e ''url''"

definition GithubEntity_type :: "Entity \<Rightarrow> string" where
  "GithubEntity_type e = type (nodeAddress e)"

definition GithubEntity_address :: "Entity \<Rightarrow> Address" where
  "GithubEntity_address e = nodeAddress e"

subsection \<open>assertEntityType and asEntity\<close>

definition assertEntityType :: "Entity \<Rightarrow> string \<Rightarrow> error + unit" where
  "assertEntityType e t =
     (if GithubEntity_type e \<noteq> t then Inl (TypeMismatch (GithubEntity_address e) t)
      else Inr ())"

definition asEntity :: "Graph \<Rightarrow> Address \<Rightarrow> error + Entity" where
  "asEntity g addr =
     (let t = type addr in
      if pluginName addr \<noteq> PLUGIN_NAME then Inl (WrongNamespace addr)
      else if t = ''ISSUE'' then Inr (new Issue g addr)
      else if t = ''PULL_REQUEST'' then Inr (new PullRequest g addr)
      else if t = ''COMMENT'' then Inr (new Comment g addr)
      else if t = ''AUTHOR'' then Inr (new Author g addr)
      else if t = ''PULL_REQUEST_REVIEW'' then Inr (new PullRequestReview g addr)
      else if t = ''PULL_REQUEST_REVIEW_COMMENT'' then Inr (new PullRequestReviewComment g addr)
      else if t = ''REPOSITORY'' then Inr (new Repository g addr)
      else Inl (UnknownEntityType addr))"

subsection \<open>Static from\<close>

text \<open>
  \<open>C.from(e)\<close> for each class \<open>C\<close>: six classes define the static method, each as
  \<open>assertEntityType(e, T); return (e: any)\<close>. \<open>Repository\<close> and its superclass
  \<open>GithubEntity\<close> define none, so \<open>Repository.from\<close> is \<open>undefined\<close> and calling it
  throws the TypeError "Repository.from is not a function".
\<close>

definition assertThenReturn :: "Entity \<Rightarrow> string \<Rightarrow> error + Entity" where
  "assertThenReturn e t = (case assertEntityType e t of Inl x \<Rightarrow> Inl x | Inr _ \<Rightarrow> Inr e)"

fun from' :: "EntityClass \<Rightarrow> Entity \<Rightarrow> error + Entity" where
  "from' Author e = assertThenReturn e AUTHOR_NODE_TYPE"
| "from' PullRequest e = assertThenReturn e PULL_REQUEST_NODE_TYPE"
| "from' Issue e = assertThenReturn e ISSUE_NODE_TYPE"
| "from' Comment e = assertThenReturn e COMMENT_NODE_TYPE"
| "from' PullRequestReview e = assertThenReturn e PULL_REQUEST_REVIEW_NODE_TYPE"
| "from' PullRequestReviewComment e = assertThenReturn e PULL_REQUEST_REVIEW_COMMENT_NODE_TYPE"
| "from' Repository e = Inl (NotAFunction ''from'')"

subsection \<open>Porcelain and Repository\<close>

definition Repository_owner :: "Entity \<Rightarrow> error + jsval" where
  "Repository_owner e = payloadField e ''owner''"

definition Repository_name :: "Entity \<Rightarrow> error + jsval" where
  "Repository_name e = payloadField e ''name''"

definition Porcelain_repositories :: "Graph \<Rightarrow> Entity list" where
  "Porcelain_repositories g =
     map (\<lambda>n. new Repository g (Node.address n)) (Graph_nodes g REPOSITORY_NODE_TYPE)"

text \<open>
  The callback of the filter, \<open>r.owner() === owner && r.name() === name\<close>: \<open>&&\<close> does
  not evaluate its right operand when the left one is false.
\<close>

definition isNamed :: "string \<Rightarrow> string \<Rightarrow> Entity \<Rightarrow> error + bool" where
  "isNamed owner name r =
     (case Repository_owner r of
        Inl x \<Rightarrow> Inl x
      | Inr ow \<Rightarrow>
          if ow = Str owner
          then (case Repository_name r of Inl x \<Rightarrow> Inl x | Inr nm \<Rightarrow> Inr (nm = Str name))
          else Inr False)"

text \<open>
  \<open>Porcelain.repository\<close>. The result \<open>repo[0]\<close> of an empty array is \<open>undefined\<close>,
  here \<open>None\<close>.
\<close>

definition Porcelain_repository :: "Graph \<Rightarrow> string \<Rightarrow> string \<Rightarrow> error + Entity option" where
  "Porcelain_repository g owner name =
     (case filterE (isNamed owner name) (Porcelain_repositories g) of
        Inl x \<Rightarrow> Inl x
      | Inr repo \<Rightarrow>
          if length repo > 1 then Inl (MultipleRepositories owner name)
          else Inr (case repo of [] \<Rightarrow> None | r # _ \<Rightarrow> Some r))"

text \<open>
  \<open>Repository.issueOrPRByNumber\<close>: two \<open>forEach\<close> loops that assign to the one variable
  \<open>result\<close>, which starts \<open>undefined\<close> (\<open>None\<close>). Each loop is a fold over the nodes it
  visits, with \<open>result\<close> as its state.
\<close>

definition assignIfNumber ::
  "EntityClass \<Rightarrow> Graph \<Rightarrow> int \<Rightarrow> Entity option \<Rightarrow> Node \<Rightarrow> Entity option" where
  "assignIfNumber c g number result n =
     (if getProp (Node.payload n) ''number'' = Num number
      then Some (new c g (Node.address n)) else result)"

definition Repository_issueOrPRByNumber :: "Entity \<Rightarrow> int \<Rightarrow> Entity option" where
  "Repository_issueOrPRByNumber e number =
     (let result = None;
          result = foldl (assignIfNumber Issue (graph e) number) result
                     (Graph_nodes (graph e) ISSUE_NODE_TYPE);
          result = foldl (assignIfNumber PullRequest (graph e) number) result
                     (Graph_nodes (graph e) PULL_REQUEST_NODE_TYPE)
      in result)"

definition Repository_issues :: "Entity \<Rightarrow> Entity list" where
  "Repository_issues e =
     map (\<lambda>n. new Issue (graph e) (Node.address n)) (Graph_nodes (graph e) ISSUE_NODE_TYPE)"

definition Repository_pullRequests :: "Entity \<Rightarrow> Entity list" where
  "Repository_pullRequests e =
     map (\<lambda>n. new PullRequest (graph e) (Node.address n))
       (Graph_nodes (graph e) PULL_REQUEST_NODE_TYPE)"

definition Repository_authors :: "Entity \<Rightarrow> Entity list" where
  "Repository_authors e =
     map (\<lambda>n. new Author (graph e) (Node.address n)) (Graph_nodes (graph e) AUTHOR_NODE_TYPE)"

subsection \<open>Post and PullRequest\<close>

text \<open>
  \<open>Post.authors\<close> passes an edge type and a node type to \<open>neighborhood\<close> and no
  direction; \<open>Post.references\<close> passes an edge type and the direction \<open>"OUT"\<close>.
\<close>

definition Post_authors :: "Entity \<Rightarrow> Entity list" where
  "Post_authors e =
     map (\<lambda>r. new Author (graph e) (snd r))
       (Graph_neighborhood (graph e) (nodeAddress e)
          \<lparr>edgeType = Some AUTHORS_EDGE_TYPE, nodeType = Some AUTHOR_NODE_TYPE,
           direction = None\<rparr>)"

definition Post_body :: "Entity \<Rightarrow> error + jsval" where
  "Post_body e = payloadField e ''body''"

definition Post_references :: "Entity \<Rightarrow> error + Entity list" where
  "Post_references e =
     mapE (\<lambda>r. asEntity (graph e) (snd r))
       (Graph_neighborhood (graph e) (nodeAddress e)
          \<lparr>edgeType = Some REFERENCES_EDGE_TYPE, nodeType = None, direction = Some OUT\<rparr>)"

text \<open>
  \<open>PullRequest.mergeCommitHash\<close>: \<open>null\<close> for no edge, the \<open>hash\<close> property of the
  edge's payload for one (\<open>mergeEdge[0]\<close> is in range there).
\<close>

definition PullRequest_mergeCommitHash :: "Entity \<Rightarrow> error + jsval" where
  "PullRequest_mergeCommitHash e =
     (let mergeEdge =
            map fst
              (Graph_neighborhood (graph e) (nodeAddress e)
                 \<lparr>edgeType = Some MERGED_AS_EDGE_TYPE, nodeType = Some COMMIT_NODE_TYPE,
                  direction = Some OUT\<rparr>)
      in if length mergeEdge > 1 then Inl (InvariantViolation (id' (nodeAddress e)))
         else if length mergeEdge = 0 then Inr Null
         else Inr (getProp (Edge.payload (mergeEdge ! 0)) ''hash''))"

subsection \<open>Method calls\<close>

text \<open>
  The class hierarchy: \<open>Issue\<close> and \<open>PullRequest\<close> extend \<open>Commentable\<close>, which extends
  \<open>Post\<close>; \<open>Comment\<close>, \<open>PullRequestReview\<close> and \<open>PullRequestReviewComment\<close> extend
  \<open>Post\<close>; \<open>Repository\<close> and \<open>Author\<close> extend \<open>GithubEntity\<close> only.
\<close>

fun isPost :: "EntityClass \<Rightarrow> bool" where
  "isPost Issue = True"
| "isPost PullRequest = True"
| "isPost Comment = True"
| "isPost PullRequestReview = True"
| "isPost PullRequestReviewComment = True"
| "isPost Repository = False"
| "isPost Author = False"

text \<open>
  \<open>e.m()\<close> for an object \<open>e\<close>: the method of \<open>e\<close>'s class or of the nearest superclass
  that defines \<open>m\<close>; the TypeError when none does. \<open>url\<close> is \<open>GithubEntity\<close>'s for every
  class. \<open>authors\<close> is \<open>Repository\<close>'s for a repository, \<open>Post\<close>'s for a post, and
  \<open>Author\<close> has none.
\<close>

definition url :: "Entity \<Rightarrow> error + jsval" where
  "url e = GithubEntity_url e"

definition body :: "Entity \<Rightarrow> error + jsval" where
  "body e = (if isPost (cls e) then Post_body e else Inl (NotAFunction ''body''))"

definition authors :: "Entity \<Rightarrow> error + Entity list" where
  "authors e =
     (if isPost (cls e) then Inr (Post_authors e)
      else if cls e = Repository then Inr (Repository_authors e)
      else Inl (NotAFunction ''authors''))"

definition references :: "Entity \<Rightarrow> error + Entity list" where
  "references e =
     (if isPost (cls e) then Post_references e else Inl (NotAFunction ''references''))"

definition mergeCommitHash :: "Entity \<Rightarrow> error + jsval" where
  "mergeCommitHash e =
     (if cls e = PullRequest then PullRequest_mergeCommitHash e
      else Inl (NotAFunction ''mergeCommitHash''))"

definition issueOrPRByNumber :: "Entity \<Rightarrow> int \<Rightarrow> error + Entity option" where
  "issueOrPRByNumber e number =
     (if cls e = Repository then Inr (Repository_issueOrPRByNumber e number)
      else Inl (NotAFunction ''issueOrPRByNumber''))"

definition issues :: "Entity \<Rightarrow> error + Entity list" where
  "issues e =
     (if cls e = Repository then Inr (Repository_issues e) else Inl (NotAFunction ''issues''))"

definition pullRequests :: "Entity \<Rightarrow> error + Entity list" where
  "pullRequests e =
     (if cls e = Repository then Inr (Repository_pullRequests e)
      else Inl (NotAFunction ''pullRequests''))"

section \<open>Notions the properties are stated with\<close>

text \<open>The closed set of type tags that \<open>asEntity\<close> dispatches on.\<close>

definition entityTags :: "string set" where
  "entityTags = {''ISSUE'', ''PULL_REQUEST'', ''COMMENT'', ''AUTHOR'', ''PULL_REQUEST_REVIEW'',
     ''PULL_REQUEST_REVIEW_COMMENT'', ''REPOSITORY''}"

text \<open>The type tag of each class: the node type that \<open>asEntity\<close> dispatches to it.\<close>

fun classTag :: "EntityClass \<Rightarrow> string" where
  "classTag Repository = REPOSITORY_NODE_TYPE"
| "classTag Issue = ISSUE_NODE_TYPE"
| "classTag PullRequest = PULL_REQUEST_NODE_TYPE"
| "classTag Comment = COMMENT_NODE_TYPE"
| "classTag Author = AUTHOR_NODE_TYPE"
| "classTag PullRequestReview = PULL_REQUEST_REVIEW_NODE_TYPE"
| "classTag PullRequestReviewComment = PULL_REQUEST_REVIEW_COMMENT_NODE_TYPE"

text \<open>
  The outgoing MERGED_AS edges of \<open>a\<close> to a Commit node, read off the edges of the graph.
\<close>

definition mergedAsEdges :: "Graph \<Rightarrow> Address \<Rightarrow> Edge list" where
  "mergedAsEdges g a =
     filter (\<lambda>e. src e = a \<and> type (Edge.address e) = MERGED_AS_EDGE_TYPE \<and>
                 type (dst e) = COMMIT_NODE_TYPE) (edges g)"

text \<open>
  The matches of a number in scan order: the Issue nodes of the whole graph whose payload
  has the number, as issues, then the PullRequest nodes that have it, as pull requests.
\<close>

definition hasNumber :: "int \<Rightarrow> Node \<Rightarrow> bool" where
  "hasNumber number n = (getProp (Node.payload n) ''number'' = Num number)"

definition matchesInScanOrder :: "Graph \<Rightarrow> int \<Rightarrow> Entity list" where
  "matchesInScanOrder g number =
     map (\<lambda>n. new Issue g (Node.address n))
       (filter (hasNumber number)
          (filter (\<lambda>n. type (Node.address n) = ISSUE_NODE_TYPE) (nodes g))) @
     map (\<lambda>n. new PullRequest g (Node.address n))
       (filter (hasNumber number)
          (filter (\<lambda>n. type (Node.address n) = PULL_REQUEST_NODE_TYPE) (nodes g)))"

definition lastMatch :: "Entity list \<Rightarrow> Entity option" where
  "lastMatch ms = (if ms = [] then None else Some (last ms))"

text \<open>The repository nodes of the graph whose payload has the owner and the name.\<close>

definition namedRepositories :: "Graph \<Rightarrow> string \<Rightarrow> string \<Rightarrow> Node list" where
  "namedRepositories g owner name =
     filter (\<lambda>n. type (Node.address n) = REPOSITORY_NODE_TYPE \<and>
                 getProp (Node.payload n) ''owner'' = Str owner \<and>
                 getProp (Node.payload n) ''name'' = Str name) (nodes g)"

text \<open>
  The addresses an entity references: its neighbors along outgoing REFERENCES edges, in
  the order of the neighborhood. \<open>asEntity\<close> rejects an address of another plugin and an
  address whose tag is outside the closed set.
\<close>

definition referenced :: "Entity \<Rightarrow> Address list" where
  "referenced e =
     map snd
       (Graph_neighborhood (graph e) (nodeAddress e)
          \<lparr>edgeType = Some REFERENCES_EDGE_TYPE, nodeType = None, direction = Some OUT\<rparr>)"

definition rejected :: "Address \<Rightarrow> bool" where
  "rejected a = (pluginName a \<noteq> PLUGIN_NAME \<or> type a \<notin> entityTags)"

section \<open>Example graphs\<close>

definition github :: "string \<Rightarrow> string \<Rightarrow> Address" where
  "github t i = \<lparr>pluginName = PLUGIN_NAME, type = t, id' = i\<rparr>"

definition git :: "string \<Rightarrow> string \<Rightarrow> Address" where
  "git t i = \<lparr>pluginName = ''sourcecred/git-beta'', type = t, id' = i\<rparr>"

definition mkNode :: "Address \<Rightarrow> payload \<Rightarrow> Node" where
  "mkNode a p = \<lparr>Node.address = a, payload = p\<rparr>"

definition mkEdge :: "string \<Rightarrow> string \<Rightarrow> Address \<Rightarrow> Address \<Rightarrow> payload \<Rightarrow> Edge" where
  "mkEdge t i s d p = \<lparr>Edge.address = github t i, src = s, dst = d, payload = p\<rparr>"

definition widgets :: Address where
  "widgets = github ''REPOSITORY'' ''acme/widgets''"

definition issue1 :: Address where
  "issue1 = github ''ISSUE'' ''issue1''"

definition issue4 :: Address where
  "issue4 = github ''ISSUE'' ''issue4''"

definition pull1 :: Address where
  "pull1 = github ''PULL_REQUEST'' ''pull1''"

definition pull2 :: Address where
  "pull2 = github ''PULL_REQUEST'' ''pull2''"

definition pull3 :: Address where
  "pull3 = github ''PULL_REQUEST'' ''pull3''"

definition alice :: Address where
  "alice = github ''AUTHOR'' ''alice''"

definition bob :: Address where
  "bob = github ''AUTHOR'' ''bob''"

definition milestone :: Address where
  "milestone = github ''MILESTONE'' ''m1''"

definition commit1 :: Address where
  "commit1 = git ''COMMIT'' ''c1''"

definition commit2 :: Address where
  "commit2 = git ''COMMIT'' ''c2''"

text \<open>
  The repository acme/widgets with issue 1 "Bug", pull request 1 "Fix" (merged as commit
  c1), pull request 2 (not merged), pull request 3 (with two merge edges) and issue 4.
  Issue 1 has two authors and references pull request 1 and commit c1.
\<close>

definition acme :: Graph where
  "acme = \<lparr>
     nodes =
       [mkNode widgets
          [(''owner'', Str ''acme''), (''name'', Str ''widgets''), (''url'', Str ''u0'')],
        mkNode issue1
          [(''number'', Num 1), (''title'', Str ''Bug''), (''body'', Str ''b1''),
           (''url'', Str ''u1'')],
        mkNode pull1
          [(''number'', Num 1), (''title'', Str ''Fix''), (''body'', Str ''b2''),
           (''url'', Str ''u2'')],
        mkNode pull2
          [(''number'', Num 2), (''title'', Str ''Draft''), (''body'', Str ''b3''),
           (''url'', Str ''u3'')],
        mkNode pull3
          [(''number'', Num 3), (''title'', Str ''Twice''), (''body'', Str ''b4''),
           (''url'', Str ''u4'')],
        mkNode issue4
          [(''number'', Num 4), (''title'', Str ''Docs''), (''body'', Str ''b5''),
           (''url'', Str ''u5'')],
        mkNode alice [(''login'', Str ''alice''), (''url'', Str ''u6'')],
        mkNode bob [(''login'', Str ''bob''), (''url'', Str ''u7'')],
        mkNode commit1 [],
        mkNode commit2 []],
     edges =
       [mkEdge ''AUTHORS'' ''e1'' issue1 alice [],
        mkEdge ''AUTHORS'' ''e2'' issue1 bob [],
        mkEdge ''MERGED_AS'' ''e3'' pull1 commit1 [(''hash'', Str ''c1'')],
        mkEdge ''MERGED_AS'' ''e4'' pull3 commit1 [(''hash'', Str ''c1'')],
        mkEdge ''MERGED_AS'' ''e5'' pull3 commit2 [(''hash'', Str ''c2'')],
        mkEdge ''REFERENCES'' ''e6'' issue1 pull1 [],
        mkEdge ''REFERENCES'' ''e7'' issue1 commit1 []]\<rparr>"

text \<open>
  A graph whose pull request references a node of the owning plugin with a tag outside
  the closed set before it references a commit of the git plugin.
\<close>

definition stray :: Graph where
  "stray = \<lparr>
     nodes =
       [mkNode pull1
          [(''number'', Num 1), (''title'', Str ''Fix''), (''body'', Str ''b2''),
           (''url'', Str ''u2'')],
        mkNode milestone [(''url'', Str ''u8'')],
        mkNode commit1 []],
     edges =
       [mkEdge ''REFERENCES'' ''e1'' pull1 milestone [],
        mkEdge ''REFERENCES'' ''e2'' pull1 commit1 []]\<rparr>"

text \<open>Two repository nodes with the same owner and name.\<close>

definition twins :: Graph where
  "twins = \<lparr>
     nodes =
       [mkNode widgets
          [(''owner'', Str ''acme''), (''name'', Str ''widgets''), (''url'', Str ''u0'')],
        mkNode (github ''REPOSITORY'' ''acme/widgets-copy'')
          [(''owner'', Str ''acme''), (''name'', Str ''widgets''), (''url'', Str ''u9'')]],
     edges = []\<rparr>"

section \<open>Evaluation on the examples\<close>

lemmas nodeTypes =
  ISSUE_NODE_TYPE_def PULL_REQUEST_NODE_TYPE_def COMMENT_NODE_TYPE_def AUTHOR_NODE_TYPE_def
  PULL_REQUEST_REVIEW_NODE_TYPE_def PULL_REQUEST_REVIEW_COMMENT_NODE_TYPE_def
  REPOSITORY_NODE_TYPE_def

lemmas pluginConstants =
  PLUGIN_NAME_def nodeTypes COMMIT_NODE_TYPE_def AUTHORS_EDGE_TYPE_def CONTAINS_EDGE_TYPE_def
  REFERENCES_EDGE_TYPE_def MERGED_AS_EDGE_TYPE_def

lemmas exampleAddresses =
  github_def git_def widgets_def issue1_def issue4_def pull1_def pull2_def pull3_def
  alice_def bob_def milestone_def commit1_def commit2_def

lemmas examples = exampleAddresses mkNode_def mkEdge_def acme_def stray_def twins_def

section \<open>Resolving an address\<close>

text \<open>
  Claim C1. \<open>asEntity\<close> fails with the wrong-namespace error when the plugin name of the
  address is not the owning plugin's. When it is, each tag of the closed set gives the
  entity of the tag's class, wrapping the graph and the address, and any other tag fails
  with the unknown-type error.
\<close>

theorem asEntity_dispatch:
  "(pluginName a \<noteq> PLUGIN_NAME \<longrightarrow> asEntity g a = Inl (WrongNamespace a)) \<and>
   (pluginName a = PLUGIN_NAME \<longrightarrow>
      (type a = ''ISSUE'' \<longrightarrow> asEntity g a = Inr (new Issue g a)) \<and>
      (type a = ''PULL_REQUEST'' \<longrightarrow> asEntity g a = Inr (new PullRequest g a)) \<and>
      (type a = ''COMMENT'' \<longrightarrow> asEntity g a = Inr (new Comment g a)) \<and>
      (type a = ''AUTHOR'' \<longrightarrow> asEntity g a = Inr (new Author g a)) \<and>
      (type a = ''PULL_REQUEST_REVIEW'' \<longrightarrow> asEntity g a = Inr (new PullRequestReview g a)) \<and>
      (type a = ''PULL_REQUEST_REVIEW_COMMENT'' \<longrightarrow>
         asEntity g a = Inr (new PullRequestReviewComment g a)) \<and>
      (type a = ''REPOSITORY'' \<longrightarrow> asEntity g a = Inr (new Repository g a)) \<and>
      (type a \<notin> entityTags \<longrightarrow> asEntity g a = Inl (UnknownEntityType a)))"
  by (simp add: asEntity_def entityTags_def)

theorem asEntity_dispatch_witness:
  "asEntity acme commit1 = Inl (WrongNamespace commit1) \<and>
   asEntity acme issue1 = Inr (new Issue acme issue1) \<and>
   asEntity acme pull1 = Inr (new PullRequest acme pull1) \<and>
   asEntity acme (github ''COMMENT'' ''c'') = Inr (new Comment acme (github ''COMMENT'' ''c'')) \<and>
   asEntity acme alice = Inr (new Author acme alice) \<and>
   asEntity acme (github ''PULL_REQUEST_REVIEW'' ''r'') =
     Inr (new PullRequestReview acme (github ''PULL_REQUEST_REVIEW'' ''r'')) \<and>
   asEntity acme (github ''PULL_REQUEST_REVIEW_COMMENT'' ''rc'') =
     Inr (new PullRequestReviewComment acme (github ''PULL_REQUEST_REVIEW_COMMENT'' ''rc'')) \<and>
   asEntity acme widgets = Inr (new Repository acme widgets) \<and>
   asEntity acme milestone = Inl (UnknownEntityType milestone)"
  using asEntity_dispatch [of commit1 acme] asEntity_dispatch [of issue1 acme]
    asEntity_dispatch [of pull1 acme] asEntity_dispatch [of "github ''COMMENT'' ''c''" acme]
    asEntity_dispatch [of alice acme]
    asEntity_dispatch [of "github ''PULL_REQUEST_REVIEW'' ''r''" acme]
    asEntity_dispatch [of "github ''PULL_REQUEST_REVIEW_COMMENT'' ''rc''" acme]
    asEntity_dispatch [of widgets acme] asEntity_dispatch [of milestone acme]
  by (simp add: exampleAddresses entityTags_def PLUGIN_NAME_def)

lemma asEntity_Inr_iff:
  "(\<exists>e. asEntity g a = Inr e) \<longleftrightarrow> pluginName a = PLUGIN_NAME \<and> type a \<in> entityTags"
  by (auto simp add: asEntity_def entityTags_def Let_def)

lemma asEntity_graph:
  "asEntity g a = Inr e \<Longrightarrow> asEntity g' a = Inr (e\<lparr>graph := g'\<rparr>)"
  by (auto simp add: asEntity_def new_def Let_def split: if_splits)

lemma asEntity_fields:
  "asEntity g a = Inr e \<Longrightarrow> graph e = g \<and> nodeAddress e = a"
  by (auto simp add: asEntity_def new_def Let_def split: if_splits)

lemma asEntity_classTag:
  "asEntity g a = Inr e \<Longrightarrow> type a = classTag (cls e)"
  by (auto simp add: asEntity_def new_def Let_def nodeTypes split: if_splits)

text \<open>
  Claim C4. Whenever \<open>asEntity\<close> succeeds on a graph and an address, \<open>address()\<close> of the
  entity it returns is the address that was passed in.
\<close>

theorem asEntity_address:
  "asEntity g a = Inr e \<Longrightarrow> GithubEntity_address e = a"
  by (auto simp add: asEntity_def GithubEntity_address_def new_def Let_def split: if_splits)

theorem asEntity_address_witness:
  "asEntity acme issue1 = Inr (new Issue acme issue1) \<and>
   GithubEntity_address (new Issue acme issue1) = issue1"
proof -
  have r: "asEntity acme issue1 = Inr (new Issue acme issue1)"
    by (simp add: asEntity_def exampleAddresses)
  from asEntity_address [OF r] r show ?thesis by simp
qed

text \<open>
  Claim C5. Resolving reads nothing from the graph: for an address with no node,
  \<open>asEntity\<close> succeeds whenever the plugin name and the tag are accepted, with the same
  result on every graph, and a field accessor of the entity (\<open>url()\<close>, and \<open>body()\<close> on a
  post) then fails with the missing-payload error.
\<close>

theorem dangling_address:
  assumes "Graph_node g a = None"
    and "pluginName a = PLUGIN_NAME"
    and "type a \<in> entityTags"
  shows "\<exists>e. asEntity g a = Inr e \<and> (\<forall>g'. asEntity g' a = Inr (e\<lparr>graph := g'\<rparr>)) \<and>
             url e = Inl MissingPayload \<and>
             (isPost (cls e) \<longrightarrow> body e = Inl MissingPayload)"
proof -
  from assms(2,3) obtain e where e: "asEntity g a = Inr e"
    using asEntity_Inr_iff by blast
  then have "GithubEntity_node e = None"
    using assms(1) by (simp add: GithubEntity_node_def asEntity_fields)
  then have "url e = Inl MissingPayload" and "isPost (cls e) \<longrightarrow> body e = Inl MissingPayload"
    by (simp_all add: url_def GithubEntity_url_def body_def Post_body_def payloadField_def)
  with e show ?thesis
    using asEntity_graph by blast
qed

theorem dangling_address_witness:
  "Graph_node acme (github ''ISSUE'' ''ghost'') = None \<and>
   asEntity acme (github ''ISSUE'' ''ghost'') = Inr (new Issue acme (github ''ISSUE'' ''ghost'')) \<and>
   url (new Issue acme (github ''ISSUE'' ''ghost'')) = Inl MissingPayload \<and>
   body (new Issue acme (github ''ISSUE'' ''ghost'')) = Inl MissingPayload"
proof -
  have n: "Graph_node acme (github ''ISSUE'' ''ghost'') = None"
    by (simp add: Graph_node_def examples)
  have p: "pluginName (github ''ISSUE'' ''ghost'') = PLUGIN_NAME"
    by (simp add: github_def)
  have t: "type (github ''ISSUE'' ''ghost'') \<in> entityTags"
    by (simp add: github_def entityTags_def)
  have r: "asEntity acme (github ''ISSUE'' ''ghost'') =
      Inr (new Issue acme (github ''ISSUE'' ''ghost''))"
    by (simp add: asEntity_def github_def)
  have c: "isPost (cls (new Issue acme (github ''ISSUE'' ''ghost'')))"
    by (simp add: new_def)
  from dangling_address [OF n p t] r c n show ?thesis by auto
qed

section \<open>Narrowing with from\<close>

lemma assertThenReturn_iff:
  "(assertThenReturn e t = Inr e \<longleftrightarrow> GithubEntity_type e = t) \<and>
   (GithubEntity_type e \<noteq> t \<longrightarrow>
      assertThenReturn e t = Inl (TypeMismatch (GithubEntity_address e) t))"
  by (simp add: assertThenReturn_def assertEntityType_def)

text \<open>
  Claim C3, as amended. For every entity \<open>e\<close> and every class \<open>V\<close> other than
  \<open>Repository\<close>, \<open>V.from(e)\<close> returns \<open>e\<close> if and only if the type tag of \<open>e\<close> is the tag
  of \<open>V\<close>, and otherwise fails with the type-mismatch error that carries the address of
  \<open>e\<close> and the expected tag. \<open>Repository\<close> defines no \<open>from\<close>.
\<close>

theorem from_narrows:
  "V \<noteq> Repository \<Longrightarrow>
   (from' V e = Inr e \<longleftrightarrow> GithubEntity_type e = classTag V) \<and>
   (GithubEntity_type e \<noteq> classTag V \<longrightarrow>
      from' V e = Inl (TypeMismatch (GithubEntity_address e) (classTag V)))"
  by (cases V) (simp_all add: assertThenReturn_iff)

theorem from_narrows_witness:
  "from' PullRequest (new PullRequest acme pull1) = Inr (new PullRequest acme pull1) \<and>
   from' PullRequest (new Issue acme issue1) = Inl (TypeMismatch issue1 ''PULL_REQUEST'')"
  using from_narrows [of PullRequest "new PullRequest acme pull1"]
    from_narrows [of PullRequest "new Issue acme issue1"]
  by (simp add: GithubEntity_type_def GithubEntity_address_def new_def exampleAddresses
      nodeTypes)

text \<open>
  The claim as stated fails for the class \<open>Repository\<close>: the entity's tag is the tag of
  the class, and the call does not return the entity.
\<close>

theorem from_Repository_counterexample:
  "GithubEntity_type (new Repository acme widgets) = classTag Repository \<and>
   from' Repository (new Repository acme widgets) = Inl (NotAFunction ''from'')"
  by (simp add: GithubEntity_type_def new_def exampleAddresses nodeTypes)

section \<open>The merge commit of a pull request\<close>

lemma incident_OUT_concat:
  "concat (map (incident (Some OUT) a) es) = map (\<lambda>e. (e, dst e)) (filter (\<lambda>e. src e = a) es)"
  by (induction es) simp_all

lemma neighborhood_OUT:
  "Graph_neighborhood g a \<lparr>edgeType = Some et, nodeType = Some nt, direction = Some OUT\<rparr> =
     map (\<lambda>e. (e, dst e))
       (filter (\<lambda>e. src e = a \<and> type (Edge.address e) = et \<and> type (dst e) = nt) (edges g))"
  by (auto simp add: Graph_neighborhood_def incident_OUT_concat filter_map comp_def
      matchesEdgeType_def matchesNodeType_def intro!: filter_cong)

text \<open>
  Claim C2. For a pull-request entity, \<open>mergeCommitHash()\<close> returns \<open>null\<close> when the
  entity has no outgoing MERGED_AS edge to a Commit node, the \<open>hash\<close> of the edge's
  payload when it has exactly one, and fails with the invariant-violation error when it
  has two or more.
\<close>

theorem mergeCommitHash_cases:
  "cls e = PullRequest \<Longrightarrow>
   mergeCommitHash e =
     (case mergedAsEdges (graph e) (nodeAddress e) of
        [] \<Rightarrow> Inr Null
      | [m] \<Rightarrow> Inr (getProp (Edge.payload m) ''hash'')
      | _ # _ # _ \<Rightarrow> Inl (InvariantViolation (id' (nodeAddress e))))"
  by (simp add: mergeCommitHash_def PullRequest_mergeCommitHash_def neighborhood_OUT
      mergedAsEdges_def Let_def comp_def split: list.split)

theorem mergeCommitHash_cases_witness:
  "mergeCommitHash (new PullRequest acme pull2) = Inr Null \<and>
   mergeCommitHash (new PullRequest acme pull1) = Inr (Str ''c1'') \<and>
   mergeCommitHash (new PullRequest acme pull3) = Inl (InvariantViolation ''pull3'')"
  using mergeCommitHash_cases [of "new PullRequest acme pull2"]
    mergeCommitHash_cases [of "new PullRequest acme pull1"]
    mergeCommitHash_cases [of "new PullRequest acme pull3"]
  by (simp add: new_def mergedAsEdges_def getProp_def examples pluginConstants)

section \<open>Repository-wide scans\<close>

lemma lastMatch_append:
  "lastMatch (xs @ ys) = (case lastMatch ys of None \<Rightarrow> lastMatch xs | Some y \<Rightarrow> Some y)"
  by (simp add: lastMatch_def)

lemma foldl_assignIfNumber:
  "foldl (assignIfNumber c g number) result ns =
     (case lastMatch (map (\<lambda>n. new c g (Node.address n)) (filter (hasNumber number) ns)) of
        None \<Rightarrow> result
      | Some x \<Rightarrow> Some x)"
proof (induction ns rule: rev_induct)
  case Nil
  show ?case by (simp add: lastMatch_def)
next
  case (snoc n ns)
  have "foldl (assignIfNumber c g number) result (ns @ [n]) =
      assignIfNumber c g number (foldl (assignIfNumber c g number) result ns) n"
    by simp
  also have "\<dots> = assignIfNumber c g number
      (case lastMatch (map (\<lambda>n. new c g (Node.address n)) (filter (hasNumber number) ns)) of
         None \<Rightarrow> result
       | Some x \<Rightarrow> Some x) n"
    by (simp only: snoc.IH)
  also have "\<dots> =
      (case lastMatch
          (map (\<lambda>n. new c g (Node.address n)) (filter (hasNumber number) (ns @ [n]))) of
         None \<Rightarrow> result
       | Some x \<Rightarrow> Some x)"
    by (simp add: assignIfNumber_def hasNumber_def lastMatch_def)
  finally show ?case .
qed

text \<open>
  Claim C6. For a repository entity, \<open>issueOrPRByNumber(n)\<close> returns the last match in
  scan order, where the scan goes through all Issue nodes of the graph and then through
  all PullRequest nodes: a matching pull request replaces a matching issue. With no match
  it returns no value.
\<close>

theorem issueOrPRByNumber_last_match:
  "cls r = Repository \<Longrightarrow>
   issueOrPRByNumber r number = Inr (lastMatch (matchesInScanOrder (graph r) number))"
  by (simp add: issueOrPRByNumber_def Repository_issueOrPRByNumber_def Graph_nodes_def
      foldl_assignIfNumber matchesInScanOrder_def lastMatch_append Let_def
      split: option.split)

theorem issueOrPRByNumber_last_match_witness:
  "matchesInScanOrder acme 1 = [new Issue acme issue1, new PullRequest acme pull1] \<and>
   issueOrPRByNumber (new Repository acme widgets) 1 = Inr (Some (new PullRequest acme pull1)) \<and>
   issueOrPRByNumber (new Repository acme widgets) 4 = Inr (Some (new Issue acme issue4)) \<and>
   issueOrPRByNumber (new Repository acme widgets) 7 = Inr None"
proof -
  have c: "cls (new Repository acme widgets) = Repository"
    and g: "graph (new Repository acme widgets) = acme"
    by (simp_all add: new_def)
  have m1: "matchesInScanOrder acme 1 = [new Issue acme issue1, new PullRequest acme pull1]"
    unfolding matchesInScanOrder_def hasNumber_def getProp_def
    by (simp add: acme_def mkNode_def exampleAddresses pluginConstants)
  have m4: "matchesInScanOrder acme 4 = [new Issue acme issue4]"
    unfolding matchesInScanOrder_def hasNumber_def getProp_def
    by (simp add: acme_def mkNode_def exampleAddresses pluginConstants)
  have m7: "matchesInScanOrder acme 7 = []"
    unfolding matchesInScanOrder_def hasNumber_def getProp_def
    by (simp add: acme_def mkNode_def exampleAddresses pluginConstants)
  show ?thesis
    using issueOrPRByNumber_last_match [OF c, of 1] issueOrPRByNumber_last_match [OF c, of 4]
      issueOrPRByNumber_last_match [OF c, of 7]
    by (simp add: g m1 m4 m7 lastMatch_def)
qed

text \<open>
  Claim C8. For a repository entity, \<open>issues()\<close>, \<open>pullRequests()\<close> and \<open>authors()\<close>
  return every node of the whole graph whose type tag is ISSUE, PULL_REQUEST or AUTHOR,
  wrapped as an entity of that class; neither the address of the repository nor any edge
  takes part.
\<close>

theorem repository_scans:
  "cls r = Repository \<Longrightarrow>
   issues r =
     Inr (map (\<lambda>n. new Issue (graph r) (Node.address n))
            (filter (\<lambda>n. type (Node.address n) = ISSUE_NODE_TYPE) (nodes (graph r)))) \<and>
   pullRequests r =
     Inr (map (\<lambda>n. new PullRequest (graph r) (Node.address n))
            (filter (\<lambda>n. type (Node.address n) = PULL_REQUEST_NODE_TYPE) (nodes (graph r)))) \<and>
   authors r =
     Inr (map (\<lambda>n. new Author (graph r) (Node.address n))
            (filter (\<lambda>n. type (Node.address n) = AUTHOR_NODE_TYPE) (nodes (graph r))))"
  by (simp add: issues_def pullRequests_def authors_def Repository_issues_def
      Repository_pullRequests_def Repository_authors_def Graph_nodes_def)

theorem repository_scans_witness:
  "issues (new Repository acme widgets) = Inr [new Issue acme issue1, new Issue acme issue4] \<and>
   pullRequests (new Repository acme widgets) =
     Inr [new PullRequest acme pull1, new PullRequest acme pull2, new PullRequest acme pull3] \<and>
   authors (new Repository acme widgets) = Inr [new Author acme alice, new Author acme bob]"
proof -
  have c: "cls (new Repository acme widgets) = Repository"
    and g: "graph (new Repository acme widgets) = acme"
    by (simp_all add: new_def)
  have m: "map (\<lambda>n. f (Node.address n)) ns = map f (map Node.address ns)"
    for f :: "Address \<Rightarrow> Entity" and ns
    by simp
  have i: "map Node.address
      (filter (\<lambda>n. type (Node.address n) = ISSUE_NODE_TYPE) (nodes acme)) = [issue1, issue4]"
    by (simp add: acme_def mkNode_def exampleAddresses pluginConstants)
  have p: "map Node.address
      (filter (\<lambda>n. type (Node.address n) = PULL_REQUEST_NODE_TYPE) (nodes acme)) =
      [pull1, pull2, pull3]"
    by (simp add: acme_def mkNode_def exampleAddresses pluginConstants)
  have a: "map Node.address
      (filter (\<lambda>n. type (Node.address n) = AUTHOR_NODE_TYPE) (nodes acme)) = [alice, bob]"
    by (simp add: acme_def mkNode_def exampleAddresses pluginConstants)
  from repository_scans [OF c] show ?thesis
    unfolding g m [of "new Issue acme"] m [of "new PullRequest acme"] m [of "new Author acme"]
      i p a
    by simp
qed

section \<open>Finding a repository by name\<close>

lemma find_member_distinct:
  "distinct (map f ns) \<Longrightarrow> n \<in> set ns \<Longrightarrow> find (\<lambda>m. f m = f n) ns = Some n"
  by (induction ns) (auto simp add: image_iff)

lemma Graph_node_member:
  "uniqueNodes g \<Longrightarrow> n \<in> set (nodes g) \<Longrightarrow> Graph_node g (Node.address n) = Some n"
  by (simp add: uniqueNodes_def Graph_node_def find_member_distinct)

lemma isNamed_member:
  "uniqueNodes g \<Longrightarrow> n \<in> set (nodes g) \<Longrightarrow>
   isNamed owner name (new Repository g (Node.address n)) =
     Inr (getProp (Node.payload n) ''owner'' = Str owner \<and>
          getProp (Node.payload n) ''name'' = Str name)"
  by (simp add: isNamed_def Repository_owner_def Repository_name_def payloadField_def
      GithubEntity_node_def new_def Graph_node_member)

lemma filterE_repositories:
  assumes "uniqueNodes g"
  shows "filterE (isNamed owner name) (Porcelain_repositories g) =
     Inr (map (\<lambda>n. new Repository g (Node.address n)) (namedRepositories g owner name))"
proof -
  have "filterE (isNamed owner name) (map (\<lambda>n. new Repository g (Node.address n)) ns) =
     Inr (map (\<lambda>n. new Repository g (Node.address n))
       (filter (\<lambda>n. getProp (Node.payload n) ''owner'' = Str owner \<and>
                 getProp (Node.payload n) ''name'' = Str name) ns))"
    if "set ns \<subseteq> set (nodes g)" for ns
    using that
  proof (induction ns)
    case Nil
    show ?case by simp
  next
    case (Cons n ns)
    then show ?case by (simp add: isNamed_member [OF assms])
  qed
  moreover have "set (filter (\<lambda>n. type (Node.address n) = REPOSITORY_NODE_TYPE) (nodes g))
      \<subseteq> set (nodes g)"
    by auto
  ultimately have "filterE (isNamed owner name)
      (map (\<lambda>n. new Repository g (Node.address n))
        (filter (\<lambda>n. type (Node.address n) = REPOSITORY_NODE_TYPE) (nodes g))) =
     Inr (map (\<lambda>n. new Repository g (Node.address n))
       (filter (\<lambda>n. getProp (Node.payload n) ''owner'' = Str owner \<and>
                 getProp (Node.payload n) ''name'' = Str name)
         (filter (\<lambda>n. type (Node.address n) = REPOSITORY_NODE_TYPE) (nodes g))))"
    by blast
  then show ?thesis
    by (simp add: Porcelain_repositories_def Graph_nodes_def namedRepositories_def
        conj_commute cong: conj_cong)
qed

text \<open>
  Claim C9. On a graph whose nodes have distinct addresses,
  \<open>Porcelain.repository(owner, name)\<close> returns \<open>undefined\<close> when no repository node has
  the owner and the name, the repository entity of the node when exactly one has them,
  and fails when more than one has them.
\<close>

theorem repository_by_name:
  "uniqueNodes g \<Longrightarrow>
   Porcelain_repository g owner name =
     (case namedRepositories g owner name of
        [] \<Rightarrow> Inr None
      | [n] \<Rightarrow> Inr (Some (new Repository g (Node.address n)))
      | _ # _ # _ \<Rightarrow> Inl (MultipleRepositories owner name))"
  by (simp add: Porcelain_repository_def filterE_repositories split: list.split)

theorem repository_by_name_witness:
  "uniqueNodes acme \<and> uniqueNodes twins \<and>
   Porcelain_repository acme ''acme'' ''gadgets'' = Inr None \<and>
   Porcelain_repository acme ''acme'' ''widgets'' = Inr (Some (new Repository acme widgets)) \<and>
   Porcelain_repository twins ''acme'' ''widgets'' =
     Inl (MultipleRepositories ''acme'' ''widgets'')"
proof -
  have ua: "uniqueNodes acme" and ut: "uniqueNodes twins"
    by (simp_all add: uniqueNodes_def examples)
  have n0: "namedRepositories acme ''acme'' ''gadgets'' = []"
    by (simp add: namedRepositories_def getProp_def acme_def mkNode_def exampleAddresses
        pluginConstants)
  have n1: "map Node.address (namedRepositories acme ''acme'' ''widgets'') = [widgets]"
    by (simp add: namedRepositories_def getProp_def acme_def mkNode_def exampleAddresses
        pluginConstants)
  have n2: "length (namedRepositories twins ''acme'' ''widgets'') = 2"
    by (simp add: namedRepositories_def getProp_def twins_def mkNode_def exampleAddresses
        pluginConstants)
  from n1 obtain n where s1: "namedRepositories acme ''acme'' ''widgets'' = [n]"
    and a1: "Node.address n = widgets"
    by auto
  from n2 obtain n' n'' where s2: "namedRepositories twins ''acme'' ''widgets'' = [n', n'']"
    by (auto simp add: length_Suc_conv numeral_2_eq_2)
  show ?thesis
    using repository_by_name [OF ua, of "''acme''" "''gadgets''"]
      repository_by_name [OF ua, of "''acme''" "''widgets''"]
      repository_by_name [OF ut, of "''acme''" "''widgets''"]
    by (simp add: ua ut n0 s1 a1 s2)
qed

section \<open>Authors and references of a post\<close>





lemma asEntity_rejected:
  "rejected a \<Longrightarrow>
   asEntity g a = Inl (if pluginName a \<noteq> PLUGIN_NAME then WrongNamespace a
                       else UnknownEntityType a)"
  by (auto simp add: rejected_def asEntity_def entityTags_def Let_def)

lemma asEntity_accepted: "\<not> rejected a \<Longrightarrow> \<exists>e. asEntity g a = Inr e"
  using asEntity_Inr_iff by (simp add: rejected_def)

lemma mapE_first_rejected:
  "find rejected as = Some n \<Longrightarrow>
   mapE (asEntity g) as = Inl (if pluginName n \<noteq> PLUGIN_NAME then WrongNamespace n
                               else UnknownEntityType n)"
proof (induction as)
  case Nil
  then show ?case by simp
next
  case (Cons a as)
  show ?case
  proof (cases "rejected a")
    case True
    with Cons.prems have "n = a" by simp
    with True show ?thesis by (simp add: asEntity_rejected)
  next
    case False
    then obtain e where "asEntity g a = Inr e" using asEntity_accepted by blast
    moreover from False Cons.prems have "find rejected as = Some n" by simp
    ultimately show ?thesis by (simp add: Cons.IH)
  qed
qed

lemma references_mapE:
  "Post_references e = mapE (asEntity (graph e)) (referenced e)"
proof -
  have "mapE (\<lambda>r. f (snd r)) rs = mapE f (map snd rs)" for f :: "Address \<Rightarrow> error + Entity"
    and rs :: "(Edge \<times> Address) list"
    by (induction rs) (simp_all split: sum.split)
  then show ?thesis by (simp add: Post_references_def referenced_def)
qed

text \<open>
  Claim C10, as amended. For every post entity, \<open>references()\<close> passes each neighbor
  along an outgoing REFERENCES edge to \<open>asEntity\<close>, in the order of the neighborhood. If
  any of these neighbors belongs to another plugin, \<open>references()\<close> fails and returns no
  references; the error is the one \<open>asEntity\<close> throws for the first neighbor it rejects:
  the wrong-namespace error for an address of another plugin, the unknown-type error for
  an address of the owning plugin with a tag outside the closed set. It is the
  wrong-namespace error whenever every neighbor of the owning plugin has a tag of the
  closed set.
\<close>

theorem references_foreign_neighbor:
  assumes "isPost (cls e)"
    and "a \<in> set (referenced e)"
    and "pluginName a \<noteq> PLUGIN_NAME"
  shows "\<exists>n. find rejected (referenced e) = Some n \<and>
     references e = Inl (if pluginName n \<noteq> PLUGIN_NAME then WrongNamespace n
                         else UnknownEntityType n) \<and>
     ((\<forall>b \<in> set (referenced e). pluginName b = PLUGIN_NAME \<longrightarrow> type b \<in> entityTags) \<longrightarrow>
        references e = Inl (WrongNamespace n))"
proof -
  from assms(2,3) have "\<exists>b \<in> set (referenced e). rejected b"
    by (auto simp add: rejected_def)
  then obtain n where n: "find rejected (referenced e) = Some n"
    by (cases "find rejected (referenced e)") (auto simp add: find_None_iff)
  then have r: "references e = Inl (if pluginName n \<noteq> PLUGIN_NAME then WrongNamespace n
                         else UnknownEntityType n)"
    using assms(1) by (simp add: references_def references_mapE mapE_first_rejected)
  from n have "rejected n" and "n \<in> set (referenced e)"
    by (auto simp add: find_Some_iff)
  with n r show ?thesis
    by (auto simp add: rejected_def)
qed

theorem references_foreign_neighbor_witness:
  "referenced (new Issue acme issue1) = [pull1, commit1] \<and>
   pluginName commit1 \<noteq> PLUGIN_NAME \<and>
   find rejected (referenced (new Issue acme issue1)) = Some commit1 \<and>
   references (new Issue acme issue1) = Inl (WrongNamespace commit1)"
proof -
  have c: "isPost (cls (new Issue acme issue1))"
    by (simp add: new_def)
  have r: "referenced (new Issue acme issue1) = [pull1, commit1]"
    by (simp add: referenced_def new_def Graph_neighborhood_def matchesEdgeType_def
        matchesNodeType_def acme_def mkEdge_def exampleAddresses pluginConstants)
  have p: "pluginName commit1 \<noteq> PLUGIN_NAME"
    by (simp add: exampleAddresses PLUGIN_NAME_def)
  have m: "commit1 \<in> set (referenced (new Issue acme issue1))"
    by (simp add: r)
  have f: "find rejected [pull1, commit1] = Some commit1"
    by (simp add: rejected_def entityTags_def exampleAddresses PLUGIN_NAME_def)
  from references_foreign_neighbor [OF c m p] r p f show ?thesis
    by auto
qed

text \<open>
  The claim as stated fails where a neighbor of the owning plugin with a tag outside the
  closed set comes before the neighbor of the other plugin: \<open>references()\<close> fails with
  the unknown-type error.
\<close>

theorem references_wrong_namespace_counterexample:
  "referenced (new PullRequest stray pull1) = [milestone, commit1] \<and>
   pluginName commit1 \<noteq> PLUGIN_NAME \<and>
   references (new PullRequest stray pull1) = Inl (UnknownEntityType milestone)"
proof -
  have r: "referenced (new PullRequest stray pull1) = [milestone, commit1]"
    by (simp add: referenced_def new_def Graph_neighborhood_def matchesEdgeType_def
        matchesNodeType_def stray_def mkEdge_def exampleAddresses pluginConstants)
  have p: "pluginName commit1 \<noteq> PLUGIN_NAME"
    by (simp add: exampleAddresses PLUGIN_NAME_def)
  have "asEntity stray milestone = Inl (UnknownEntityType milestone)"
    by (simp add: asEntity_def exampleAddresses)
  then have "mapE (asEntity stray) [milestone, commit1] = Inl (UnknownEntityType milestone)"
    by simp
  with r have "references (new PullRequest stray pull1) = Inl (UnknownEntityType milestone)"
    by (simp add: references_def references_mapE new_def)
  with r p show ?thesis by simp
qed

end
